theory Spec2Isabelle
  imports Complex_Main
begin

section \<open>The intermediate representation (types.ts, as imported by parser and generator)\<close>

text \<open>
  \<^verbatim>\<open>PropertyType\<close> is a discriminated union on the field \<^verbatim>\<open>kind\<close>, one constructor per
  tag: \<^verbatim>\<open>'primitive' | 'array' | 'object' | 'union' | 'literal'\<close>. A \<^verbatim>\<open>Property\<close> holds a
  \<^verbatim>\<open>PropertyType\<close>, and an object kind holds a list of \<^verbatim>\<open>Property\<close>, so the two types
  are mutually recursive. A JavaScript string is the list of its code units (the model
  has the code units below 256). The value of a number literal type is a finite double,
  so a rational number; the model takes every rational.
\<close>

datatype PrimitiveName = String_type | Number_type | Boolean_type | Date_type

datatype LiteralValue = StringValue string | NumberValue rat | BooleanValue bool

datatype PropertyType =
    Primitive_kind PrimitiveName
  | Array_kind PropertyType
  | Object_kind "Property list"
  | Union_kind "PropertyType list"
  | Literal_kind LiteralValue
and Property =
    Property (name: string) (type: PropertyType) (isOptional: bool)
             (isReadonly: bool) (hasDefaultValue: bool)

record ParsedClass =
  name :: string
  filePath :: string
  isExported :: bool
  properties :: "Property list"

section \<open>The type-introspection provider (ts-morph), as the parser queries it\<close>

text \<open>
  The parser only ever calls query methods on the objects that ts-morph hands out. A
  value of \<open>Type\<close> is a type handle together with the answers it gives to
  every query that \<^verbatim>\<open>parserPropertyType\<close> makes; no relation between the answers is
  assumed. \<^verbatim>\<open>getArrayElementType\<close> is \<open>None\<close> where ts-morph has no element type, and
  then \<^verbatim>\<open>getArrayElementTypeOrThrow\<close> throws. A symbol lists its declarations; a
  declaration node either has a \<^verbatim>\<open>getType\<close> method (\<open>Some\<close>) or has none; it also
  knows whether the member was declared \<^verbatim>\<open>readonly\<close> and whether it has an initializer,
  two answers the parser never asks a member for. The answers are finite trees: a type
  whose members lead back to itself, on which the source recurses without bound, is
  outside this model.
\<close>

datatype JsValue =
    JsString string | JsNumber rat | JsBoolean bool | JsBigInt int | JsUndefined

datatype Type =
    Type (isString: bool) (isNumber: bool) (isBoolean: bool) (getText: string)
         (isArray: bool) (getArrayElementType: "Type option")
         (isUnion: bool) (getUnionTypes: "Type list")
         (isLiteral: bool) (getLiteralValue: JsValue)
         (isObject: bool) (getProperties: "Symbol list")
and Symbol =
    Symbol (symbol_getName: string) (symbol_getDeclarations: "Node list")
           (symbol_isOptional: "bool option")
and Node =
    Node (node_getType: "Type option") (node_isReadonly: bool) (node_hasInitializer: bool)

record PropertyDeclaration =
  property_getName :: string
  property_getType :: Type
  property_hasQuestionToken :: "bool option"
  property_isReadonly :: bool
  property_hasInitializer :: bool

record ClassDeclaration =
  class_getName :: "string option"
  class_isExported :: bool
  class_getProperties :: "PropertyDeclaration list"

type_synonym SourceFile = "ClassDeclaration list"

text \<open>
  A project answers \<^verbatim>\<open>addSourceFileAtPath\<close>: the classes of the file at that path, or
  nothing when there is no such file (ts-morph then throws).
\<close>

type_synonym Project = "string \<Rightarrow> SourceFile option"

section \<open>Errors\<close>

text \<open>
  \<open>Error msg\<close> is \<^verbatim>\<open>throw new Error(msg)\<close> of the source. The other two are thrown
  inside ts-morph: by \<^verbatim>\<open>addSourceFileAtPath\<close> on a missing file and by
  \<^verbatim>\<open>getArrayElementTypeOrThrow\<close> on a missing element type.
\<close>

datatype error = Error string | FileNotFoundError string | ExpectedArrayElementType

text \<open>
  \<^verbatim>\<open>xs.map(f)\<close> with a callback that may throw: the elements are visited from left to
  right and the first exception ends the loop.
\<close>

fun map_throwing :: "('a \<Rightarrow> error + 'b) \<Rightarrow> 'a list \<Rightarrow> error + 'b list" where
  "map_throwing f [] = Inr []"
| "map_throwing f (x # xs) =
     (case f x of
        Inl e \<Rightarrow> Inl e
      | Inr y \<Rightarrow> (case map_throwing f xs of Inl e \<Rightarrow> Inl e | Inr ys \<Rightarrow> Inr (y # ys)))"

lemma map_throwing_cong [fundef_cong]:
  "xs = ys \<Longrightarrow> (\<And>x. x \<in> set ys \<Longrightarrow> f x = g x) \<Longrightarrow> map_throwing f xs = map_throwing g ys"
proof -
  have "(\<And>x. x \<in> set ys \<Longrightarrow> f x = g x) \<Longrightarrow> map_throwing f ys = map_throwing g ys"
    by (induction ys) (auto split: sum.splits)
  then show "xs = ys \<Longrightarrow> (\<And>x. x \<in> set ys \<Longrightarrow> f x = g x) \<Longrightarrow> map_throwing f xs = map_throwing g ys"
    by simp
qed

text \<open>\<^verbatim>\<open>a ?? b\<close> on an optional boolean.\<close>

definition nullish :: "bool option \<Rightarrow> bool \<Rightarrow> bool" where
  "nullish a b = (case a of None \<Rightarrow> b | Some v \<Rightarrow> v)"

section \<open>parser.ts\<close>

text \<open>
  The test of line 102: \<^verbatim>\<open>typeof v === 'string' || typeof v === 'number' ||
  typeof v === 'boolean'\<close>, returning the value at the narrowed type.
\<close>

fun string_number_boolean :: "JsValue \<Rightarrow> LiteralValue option" where
  "string_number_boolean (JsString s) = Some (StringValue s)"
| "string_number_boolean (JsNumber n) = Some (NumberValue n)"
| "string_number_boolean (JsBoolean b) = Some (BooleanValue b)"
| "string_number_boolean (JsBigInt n) = None"
| "string_number_boolean JsUndefined = None"

lemma size_getArrayElementType:
  "getArrayElementType t = Some e \<Longrightarrow> size e < size t"
  by (cases t) auto

lemma size_getUnionTypes:
  "m \<in> set (getUnionTypes t) \<Longrightarrow> size m < size t"
  by (cases t) (auto simp: less_Suc_eq_le dest!: size_list_estimation'[where f = size and y = "size m"])

lemma size_member_type:
  "s \<in> set (getProperties t) \<Longrightarrow> symbol_getDeclarations s = d # ds \<Longrightarrow>
   node_getType d = Some ty \<Longrightarrow> size ty < size t"
proof -
  assume s: "s \<in> set (getProperties t)" and d: "symbol_getDeclarations s = d # ds"
    and ty: "node_getType d = Some ty"
  from ty have "size ty < size d" by (cases d) auto
  also from d have "size d < size s" by (cases s) auto
  also from s have "size s < size t"
    by (cases t) (auto simp: less_Suc_eq_le dest!: size_list_estimation'[where f = size and y = "size s"])
  finally show ?thesis .
qed

function parserPropertyType :: "Type \<Rightarrow> error + PropertyType" where
  "parserPropertyType t =
     (if isString t then Inr (Primitive_kind String_type)
      else if isNumber t then Inr (Primitive_kind Number_type)
      else if isBoolean t then Inr (Primitive_kind Boolean_type)
      else if getText t = ''Date'' then Inr (Primitive_kind Date_type)
      else if isArray t then
        (case getArrayElementType t of
           None \<Rightarrow> Inl ExpectedArrayElementType
         | Some arrayElementType \<Rightarrow>
             (case parserPropertyType arrayElementType of
                Inl e \<Rightarrow> Inl e
              | Inr elementType \<Rightarrow> Inr (Array_kind elementType)))
      else if isUnion t then
        (case map_throwing parserPropertyType (getUnionTypes t) of
           Inl e \<Rightarrow> Inl e
         | Inr types \<Rightarrow> Inr (Union_kind types))
      else
        (case (if isLiteral t then string_number_boolean (getLiteralValue t) else None) of
           Some literalValue \<Rightarrow> Inr (Literal_kind literalValue)
         | None \<Rightarrow>
             if isObject t then
               (case map_throwing
                   (\<lambda>symbol.
                      case symbol_getDeclarations symbol of
                        [] \<Rightarrow> Inl (Error (''No declaration found for property '' @ symbol_getName symbol))
                      | declaration # _ \<Rightarrow>
                          (case node_getType declaration of
                             None \<Rightarrow> Inl (Error (''Cannot get type for property '' @ symbol_getName symbol))
                           | Some propertyType \<Rightarrow>
                               (case parserPropertyType propertyType of
                                  Inl e \<Rightarrow> Inl e
                                | Inr ty \<Rightarrow>
                                    Inr (Property (symbol_getName symbol) ty
                                           (nullish (symbol_isOptional symbol) False) False False))))
                   (getProperties t) of
                  Inl e \<Rightarrow> Inl e
                | Inr props \<Rightarrow> Inr (Object_kind props))
             else Inl (Error (''Unsupported type: '' @ getText t))))"
  by pat_completeness auto
termination
  apply (relation "measure size")
  apply (auto simp: size_getArrayElementType size_getUnionTypes size_member_type)
  done

declare parserPropertyType.simps [simp del]

text \<open>
  The handles on which every test of \<^verbatim>\<open>parserPropertyType\<close> fails, so that control reaches
  the \<^verbatim>\<open>throw\<close> of line 138.
\<close>

definition matches_no_kind :: "Type \<Rightarrow> bool" where
  "matches_no_kind t \<longleftrightarrow>
     \<not> isString t \<and> \<not> isNumber t \<and> \<not> isBoolean t \<and> getText t \<noteq> ''Date'' \<and>
     \<not> isArray t \<and> \<not> isUnion t \<and>
     \<not> (isLiteral t \<and> string_number_boolean (getLiteralValue t) \<noteq> None) \<and> \<not> isObject t"

text \<open>
  \<open>literal_member m v\<close>: the handle \<open>m\<close> passes the tests before the literal test, is a
  literal kind and has the string, number or boolean value \<open>v\<close>.
  \<open>literal_union u vs\<close>: the handle \<open>u\<close> passes the tests before the union test, is a
  union kind, and the members that the provider reports for it are, in the reported
  order, literal members with the values \<open>vs\<close>.
\<close>

definition literal_member :: "Type \<Rightarrow> LiteralValue \<Rightarrow> bool" where
  "literal_member m v \<longleftrightarrow>
     \<not> isString m \<and> \<not> isNumber m \<and> \<not> isBoolean m \<and> getText m \<noteq> ''Date'' \<and>
     \<not> isArray m \<and> \<not> isUnion m \<and>
     isLiteral m \<and> string_number_boolean (getLiteralValue m) = Some v"

definition literal_union :: "Type \<Rightarrow> LiteralValue list \<Rightarrow> bool" where
  "literal_union u vs \<longleftrightarrow>
     \<not> isString u \<and> \<not> isNumber u \<and> \<not> isBoolean u \<and> getText u \<noteq> ''Date'' \<and>
     \<not> isArray u \<and> isUnion u \<and> list_all2 literal_member (getUnionTypes u) vs"

definition parseProperty :: "PropertyDeclaration \<Rightarrow> error + Property" where
  "parseProperty property =
     (case parserPropertyType (property_getType property) of
        Inl e \<Rightarrow> Inl e
      | Inr ty \<Rightarrow>
          Inr (Property (property_getName property) ty
                 (nullish (property_hasQuestionToken property) False)
                 (property_isReadonly property)
                 (property_hasInitializer property)))"

definition parseProperties :: "ClassDeclaration \<Rightarrow> error + Property list" where
  "parseProperties classDeclaration =
     map_throwing parseProperty (class_getProperties classDeclaration)"

text \<open>\<^verbatim>\<open>sourceFile.getClass(className)\<close>: the first class of the file with that name.\<close>

definition getClass :: "SourceFile \<Rightarrow> string \<Rightarrow> ClassDeclaration option" where
  "getClass sourceFile className = find (\<lambda>c. class_getName c = Some className) sourceFile"

text \<open>
  \<^verbatim>\<open>parseClass(filePath, className)\<close>. The project that \<^verbatim>\<open>new Project()\<close> opens on the
  file system is the first argument. The message of line 23 puts both arguments between
  single quotes (character 0x27).
\<close>

definition parseClass :: "Project \<Rightarrow> string \<Rightarrow> string \<Rightarrow> error + ParsedClass" where
  "parseClass project file_path className =
     (case project file_path of
        None \<Rightarrow> Inl (FileNotFoundError file_path)
      | Some sourceFile \<Rightarrow>
          (case getClass sourceFile className of
             None \<Rightarrow>
               Inl (Error (''Class '' @ [CHR 0x27] @ className @ [CHR 0x27] @
                           '' not found in file '' @ [CHR 0x27] @ file_path @ [CHR 0x27]))
           | Some classDeclaration \<Rightarrow>
               (case parseProperties classDeclaration of
                  Inl e \<Rightarrow> Inl e
                | Inr props \<Rightarrow>
                    Inr \<lparr>name = className, filePath = file_path,
                         isExported = class_isExported classDeclaration,
                         properties = props\<rparr>)))"

section \<open>The TypeBox generator (class ElysiaTypeBoxGenerator)\<close>

text \<open>
  The generator calls two operations of the language that the repository does not
  define: \<^verbatim>\<open>String.prototype.toLowerCase\<close> (line 42) and the conversion of a number to a
  string that a template literal applies (line 104). They are parameters of the model,
  and nothing is assumed of them.
\<close>

record JavaScript =
  toLowerCase :: "string \<Rightarrow> string"
  number_toString :: "rat \<Rightarrow> string"

text \<open>
  The other string operations are fixed: \<^verbatim>\<open>charAt(i)\<close> is the empty string out of range;
  \<^verbatim>\<open>slice(i)\<close> drops the first \<open>i\<close> code units; \<^verbatim>\<open>xs.join(sep)\<close> is the empty string on the
  empty array; a boolean in a template literal is \<^verbatim>\<open>true\<close> or \<^verbatim>\<open>false\<close>.
\<close>

definition charAt :: "string \<Rightarrow> nat \<Rightarrow> string" where
  "charAt s i = (if i < length s then [s ! i] else [])"

definition slice :: "string \<Rightarrow> nat \<Rightarrow> string" where
  "slice s i = drop i s"

fun join :: "string list \<Rightarrow> string \<Rightarrow> string" where
  "join [] sep = []"
| "join [x] sep = x"
| "join (x # y # ys) sep = x @ sep @ join (y # ys) sep"

definition boolean_toString :: "bool \<Rightarrow> string" where
  "boolean_toString b = (if b then ''true'' else ''false'')"

definition supports :: "string \<Rightarrow> bool" where
  "supports ty = (ty = ''typebox'')"

definition getImports :: "string list" where
  "getImports = [''import { t } from '' @ [CHR 0x22] @ ''elysia'' @ [CHR 0x22]]"

definition generateSchemaName :: "JavaScript \<Rightarrow> string \<Rightarrow> string" where
  "generateSchemaName js className =
     (let camelCase = toLowerCase js (charAt className 0) @ slice className 1
      in camelCase @ ''Schema'')"

fun generatePrimitiveType :: "PrimitiveName \<Rightarrow> string" where
  "generatePrimitiveType String_type = ''t.String()''"
| "generatePrimitiveType Number_type = ''t.Number()''"
| "generatePrimitiveType Boolean_type = ''t.Boolean()''"
| "generatePrimitiveType Date_type = ''t.Date()''"

fun generateLiteralType :: "JavaScript \<Rightarrow> LiteralValue \<Rightarrow> string" where
  "generateLiteralType js (StringValue v) =
     ''t.Literal('' @ [CHR 0x27] @ v @ [CHR 0x27] @ '')''"
| "generateLiteralType js (NumberValue v) = ''t.Literal('' @ number_toString js v @ '')''"
| "generateLiteralType js (BooleanValue v) = ''t.Literal('' @ boolean_toString v @ '')''"

fun generateType :: "JavaScript \<Rightarrow> PropertyType \<Rightarrow> string"
  and generateProperty :: "JavaScript \<Rightarrow> Property \<Rightarrow> string"
  and generateObjectType :: "JavaScript \<Rightarrow> Property list \<Rightarrow> string"
  and generateUnionType :: "JavaScript \<Rightarrow> PropertyType list \<Rightarrow> string"
where
  "generateType js (Primitive_kind ty) = generatePrimitiveType ty"
| "generateType js (Array_kind elementType) = ''t.Array('' @ generateType js elementType @ '')''"
| "generateType js (Object_kind props) = generateObjectType js props"
| "generateType js (Union_kind types) = generateUnionType js types"
| "generateType js (Literal_kind v) = generateLiteralType js v"
| "generateProperty js (Property nm ty opt ro dv) =
     (let typeCode = generateType js ty;
          code = (if opt then ''t.Optional('' @ typeCode @ '')'' else typeCode)
      in ''  '' @ nm @ '': '' @ code)"
| "generateObjectType js props =
     (let props' = join (map (generateProperty js) props) '',\<newline>''
      in ''t.Object({\<newline>'' @ props' @ ''\<newline>})'')"
| "generateUnionType js types =
     (let typeCodes = join (map (generateType js) types) '', ''
      in ''t.Union(['' @ typeCodes @ ''])'')"

definition generateProperties :: "JavaScript \<Rightarrow> Property list \<Rightarrow> string" where
  "generateProperties js props = join (map (generateProperty js) props) '',\<newline>''"

definition generate :: "JavaScript \<Rightarrow> ParsedClass \<Rightarrow> string" where
  "generate js parsedClass =
     (let imports = join getImports ''\<newline>'';
          schemaName = generateSchemaName js (ParsedClass.name parsedClass);
          props = generateProperties js (properties parsedClass)
      in imports @ ''\<newline>\<newline>export const '' @ schemaName @ '' = t.Object({ \<newline>'' @ props @ '' });'')"

section \<open>Type handles and declarations used as concrete inputs\<close>

text \<open>
  Handles with the answers ts-morph gives for a few TypeScript types. \<open>string_handle\<close> is
  \<^verbatim>\<open>string\<close>; \<open>plain_handle txt\<close> answers no to every kind query (\<^verbatim>\<open>bigint\<close>, \<^verbatim>\<open>any\<close>,
  \<^verbatim>\<open>unknown\<close>); \<open>array_handle e\<close> is \<^verbatim>\<open>T[]\<close> for the element \<open>e\<close> (its text is the text
  of \<open>e\<close> followed by two brackets; an array is also an object);
  \<open>literal_handle txt v\<close> is a literal type with value \<open>v\<close>;
  \<open>union_handle txt ms\<close> is a union with the members \<open>ms\<close>; \<open>object_handle txt ss\<close> is a
  structural type with the member symbols \<open>ss\<close>.
\<close>

definition string_handle :: Type where
  "string_handle =
     Type True False False ''string'' False None False [] False JsUndefined False []"

definition plain_handle :: "string \<Rightarrow> Type" where
  "plain_handle txt = Type False False False txt False None False [] False JsUndefined False []"

definition array_handle :: "Type \<Rightarrow> Type" where
  "array_handle e =
     Type False False False (getText e @ ''[]'') True (Some e) False [] False JsUndefined True []"

definition literal_handle :: "string \<Rightarrow> JsValue \<Rightarrow> Type" where
  "literal_handle txt v = Type False False False txt False None False [] True v False []"

definition union_handle :: "string \<Rightarrow> Type list \<Rightarrow> Type" where
  "union_handle txt ms = Type False False False txt False None True ms False JsUndefined False []"

definition object_handle :: "string \<Rightarrow> Symbol list \<Rightarrow> Type" where
  "object_handle txt ss = Type False False False txt False None False [] False JsUndefined True ss"

text \<open>
  The global \<^verbatim>\<open>Date\<close>: an interface, so an object kind, with methods as members (one is
  enough here; its type is a function type, reported as an object without members).
\<close>

definition Date_handle :: Type where
  "Date_handle =
     object_handle ''Date''
       [Symbol ''getTime'' [Node (Some (object_handle ''() => number'' [])) False False]
          (Some False)]"

text \<open>\<^verbatim>\<open>{ readonly street: string; city?: string }\<close>\<close>

definition address_handle :: Type where
  "address_handle =
     object_handle ''{ readonly street: string; city?: string; }''
       [Symbol ''street'' [Node (Some string_handle) True False] (Some False),
        Symbol ''city'' [Node (Some string_handle) False False] (Some True)]"

text \<open>
  The class of the fixture \<^verbatim>\<open>union-types.ts\<close>:
  \<^verbatim>\<open>export class Task { id: string; status: 'pending' | 'active' | 'completed'; priority: 1 | 2 | 3; }\<close>
  with the union members in the order of the declaration. TypeScript prints a string
  literal type between double quotes.
\<close>

definition quoted :: "string \<Rightarrow> string" where
  "quoted s = [CHR 0x22] @ s @ [CHR 0x22]"

definition Task_class :: ClassDeclaration where
  "Task_class =
     \<lparr>class_getName = Some ''Task'', class_isExported = True,
      class_getProperties =
        [\<lparr>property_getName = ''id'', property_getType = string_handle,
          property_hasQuestionToken = Some False, property_isReadonly = False,
          property_hasInitializer = False\<rparr>,
         \<lparr>property_getName = ''status'',
          property_getType =
            union_handle
              (quoted ''pending'' @ '' | '' @ quoted ''active'' @ '' | '' @ quoted ''completed'')
              [literal_handle (quoted ''pending'') (JsString ''pending''),
               literal_handle (quoted ''active'') (JsString ''active''),
               literal_handle (quoted ''completed'') (JsString ''completed'')],
          property_hasQuestionToken = Some False, property_isReadonly = False,
          property_hasInitializer = False\<rparr>,
         \<lparr>property_getName = ''priority'',
          property_getType =
            union_handle ''1 | 2 | 3''
              [literal_handle ''1'' (JsNumber 1), literal_handle ''2'' (JsNumber 2),
               literal_handle ''3'' (JsNumber 3)],
          property_hasQuestionToken = Some False, property_isReadonly = False,
          property_hasInitializer = False\<rparr>]\<rparr>"

definition Task_project :: Project where
  "Task_project file_path =
     (if file_path = ''tests/fixtures/union-types.ts'' then Some [Task_class] else None)"

text \<open>
  The other \<^verbatim>\<open>Task\<close> fixture of the repository, where the type of \<^verbatim>\<open>status\<close> is an alias:
  \<^verbatim>\<open>const status = ['pending', 'active', 'completed'] as const;
  type Status = (typeof status)[number];
  export class Task { id: string; status: Status; priority: 1 | 2 | 3; }\<close>
  TypeScript keeps the members of a union in the order in which it created their types.
  The tuple of three elements makes it create the literal type 3 (the length of the
  tuple) before 1 and 2, and the provider reports the members of \<^verbatim>\<open>priority\<close> as 3, 1, 2.
\<close>

definition Task_alias_class :: ClassDeclaration where
  "Task_alias_class =
     \<lparr>class_getName = Some ''Task'', class_isExported = True,
      class_getProperties =
        [\<lparr>property_getName = ''id'', property_getType = string_handle,
          property_hasQuestionToken = Some False, property_isReadonly = False,
          property_hasInitializer = False\<rparr>,
         \<lparr>property_getName = ''status'',
          property_getType =
            union_handle ''Status''
              [literal_handle (quoted ''pending'') (JsString ''pending''),
               literal_handle (quoted ''active'') (JsString ''active''),
               literal_handle (quoted ''completed'') (JsString ''completed'')],
          property_hasQuestionToken = Some False, property_isReadonly = False,
          property_hasInitializer = False\<rparr>,
         \<lparr>property_getName = ''priority'',
          property_getType =
            union_handle ''3 | 1 | 2''
              [literal_handle ''3'' (JsNumber 3), literal_handle ''1'' (JsNumber 1),
               literal_handle ''2'' (JsNumber 2)],
          property_hasQuestionToken = Some False, property_isReadonly = False,
          property_hasInitializer = False\<rparr>]\<rparr>"

definition Task_alias_project :: Project where
  "Task_alias_project file_path =
     (if file_path = ''tests/fixtures/union-types.ts'' then Some [Task_alias_class] else None)"

text \<open>
  One instance of the two language operations, for the places below that run the
  generator on a concrete input. It is a table for the inputs that occur there: the
  one-letter strings \<^verbatim>\<open>T\<close> and \<^verbatim>\<open>U\<close>, which JavaScript turns into \<^verbatim>\<open>t\<close> and \<^verbatim>\<open>u\<close>, and the
  numbers 1, 2 and 3, which JavaScript prints as one digit. On any other input it is not
  meant to agree with JavaScript, and no statement below applies it to one.
\<close>

definition sample_js :: JavaScript where
  "sample_js =
     \<lparr>toLowerCase = (\<lambda>s. if s = ''T'' then ''t'' else if s = ''U'' then ''u'' else s),
      number_toString =
        (\<lambda>q. if q = 1 then ''1'' else if q = 2 then ''2'' else if q = 3 then ''3'' else [])\<rparr>"

text \<open>
  A file with two classes:
  \<^verbatim>\<open>export class Ledger { owner: string; amounts: bigint[]; }\<close> and
  \<^verbatim>\<open>export class Account { owner: string; balance: bigint; }\<close>
\<close>

definition Ledger_class :: ClassDeclaration where
  "Ledger_class =
     \<lparr>class_getName = Some ''Ledger'', class_isExported = True,
      class_getProperties =
        [\<lparr>property_getName = ''owner'', property_getType = string_handle,
          property_hasQuestionToken = Some False, property_isReadonly = False,
          property_hasInitializer = False\<rparr>,
         \<lparr>property_getName = ''amounts'',
          property_getType = array_handle (plain_handle ''bigint''),
          property_hasQuestionToken = Some False, property_isReadonly = False,
          property_hasInitializer = False\<rparr>]\<rparr>"

definition Account_class :: ClassDeclaration where
  "Account_class =
     \<lparr>class_getName = Some ''Account'', class_isExported = True,
      class_getProperties =
        [\<lparr>property_getName = ''owner'', property_getType = string_handle,
          property_hasQuestionToken = Some False, property_isReadonly = False,
          property_hasInitializer = False\<rparr>,
         \<lparr>property_getName = ''balance'', property_getType = plain_handle ''bigint'',
          property_hasQuestionToken = Some False, property_isReadonly = False,
          property_hasInitializer = False\<rparr>]\<rparr>"

definition ledger_project :: Project where
  "ledger_project file_path =
     (if file_path = ''src/ledger.ts'' then Some [Ledger_class, Account_class] else None)"

section \<open>Facts about the resolver\<close>

lemma map_throwing_Inr_iff:
  "map_throwing f xs = Inr ys \<longleftrightarrow> map f xs = map Inr ys"
proof (induction xs arbitrary: ys)
  case Nil
  show ?case by auto
next
  case (Cons x xs)
  show ?case
  proof (cases ys)
    case Nil
    then show ?thesis by (auto split: sum.splits)
  next
    case (Cons y ys')
    with Cons.IH [of ys'] show ?thesis by (auto split: sum.splits)
  qed
qed

lemma map_throwing_nth:
  assumes "map_throwing f xs = Inr ys"
  shows "length ys = length xs" and "i < length xs \<Longrightarrow> f (xs ! i) = Inr (ys ! i)"
proof -
  from assms have m: "map f xs = map Inr ys" by (simp add: map_throwing_Inr_iff)
  then show len: "length ys = length xs" by (metis length_map)
  assume i: "i < length xs"
  from m have "map f xs ! i = map Inr ys ! i" by simp
  with i len show "f (xs ! i) = Inr (ys ! i)" by simp
qed

lemma resolve_array_step:
  assumes "\<not> isString t" "\<not> isNumber t" "\<not> isBoolean t" "getText t \<noteq> ''Date''"
    and "isArray t" "getArrayElementType t = Some e"
  shows "parserPropertyType t =
           (case parserPropertyType e of Inl err \<Rightarrow> Inl err | Inr x \<Rightarrow> Inr (Array_kind x))"
  using assms by (subst parserPropertyType.simps) simp

lemma resolve_union_step:
  assumes "\<not> isString t" "\<not> isNumber t" "\<not> isBoolean t" "getText t \<noteq> ''Date''"
    and "\<not> isArray t" "isUnion t"
  shows "parserPropertyType t =
           (case map_throwing parserPropertyType (getUnionTypes t) of
              Inl err \<Rightarrow> Inl err | Inr xs \<Rightarrow> Inr (Union_kind xs))"
  using assms by (subst parserPropertyType.simps) simp

lemma resolved_object_members:
  assumes "parserPropertyType t = Inr (Object_kind props)"
  shows "map_throwing (\<lambda>symbol.
            case symbol_getDeclarations symbol of
              [] \<Rightarrow> Inl (Error (''No declaration found for property '' @ symbol_getName symbol))
            | declaration # _ \<Rightarrow>
                (case node_getType declaration of
                   None \<Rightarrow> Inl (Error (''Cannot get type for property '' @ symbol_getName symbol))
                 | Some propertyType \<Rightarrow>
                     (case parserPropertyType propertyType of
                        Inl e \<Rightarrow> Inl e
                      | Inr ty \<Rightarrow>
                          Inr (Property (symbol_getName symbol) ty
                                 (nullish (symbol_isOptional symbol) False) False False))))
          (getProperties t) = Inr props"
  using assms
  by (subst (asm) parserPropertyType.simps) (simp split: if_splits option.splits sum.splits)

lemma resolve_string_handle:
  "parserPropertyType string_handle = Inr (Primitive_kind String_type)"
  by (simp add: parserPropertyType.simps string_handle_def)

lemma array_text_not_Date: "txt @ ''[]'' \<noteq> ''Date''"
proof
  assume "txt @ ''[]'' = ''Date''"
  then have "last (txt @ ''[]'') = last ''Date''" by simp
  then show False by simp
qed

lemma resolve_array_handle:
  "parserPropertyType (array_handle e) =
     (case parserPropertyType e of Inl err \<Rightarrow> Inl err | Inr x \<Rightarrow> Inr (Array_kind x))"
  by (rule resolve_array_step) (simp_all add: array_handle_def array_text_not_Date)

lemma resolve_nested_array_handle:
  "parserPropertyType e = Inr X \<Longrightarrow>
   parserPropertyType ((array_handle ^^ n) e) = Inr ((Array_kind ^^ n) X)"
  by (induction n) (simp_all add: resolve_array_handle)

lemma terminal_failure:
  assumes "\<not> isString t" "\<not> isNumber t" "\<not> isBoolean t" "getText t \<noteq> ''Date''"
    and "\<not> isArray t" "\<not> isUnion t"
    and "isLiteral t \<longrightarrow> string_number_boolean (getLiteralValue t) = None"
    and "\<not> isObject t"
  shows "parserPropertyType t = Inl (Error (''Unsupported type: '' @ getText t))"
  using assms by (subst parserPropertyType.simps) auto

lemma map_throwing_first_error:
  assumes "\<forall>x\<in>set xs. \<exists>y. f x = Inr y" and "f z = Inl e"
  shows "map_throwing f (xs @ z # zs) = Inl e"
  using assms by (induction xs) auto

lemma map_throwing_some_error:
  assumes "z \<in> set xs" and "f z = Inl e"
  shows "\<exists>e'. map_throwing f xs = Inl e'"
  using assms by (induction xs) (auto split: sum.splits)

lemma parseProperty_Inl:
  "parserPropertyType (property_getType p) = Inl e \<Longrightarrow> parseProperty p = Inl e"
  by (simp add: parseProperty_def)

lemma parseProperty_Inr:
  "parserPropertyType (property_getType p) = Inr ty \<Longrightarrow> \<exists>y. parseProperty p = Inr y"
  by (simp add: parseProperty_def)

lemma Task_parsed:
  "parseClass Task_project ''tests/fixtures/union-types.ts'' ''Task'' =
     Inr \<lparr>name = ''Task'', filePath = ''tests/fixtures/union-types.ts'', isExported = True,
          properties =
            [Property ''id'' (Primitive_kind String_type) False False False,
             Property ''status''
               (Union_kind [Literal_kind (StringValue ''pending''),
                            Literal_kind (StringValue ''active''),
                            Literal_kind (StringValue ''completed'')]) False False False,
             Property ''priority''
               (Union_kind [Literal_kind (NumberValue 1), Literal_kind (NumberValue 2),
                            Literal_kind (NumberValue 3)]) False False False]\<rparr>"
  by (simp add: parseClass_def Task_project_def getClass_def Task_class_def parseProperties_def
        parseProperty_def parserPropertyType.simps string_handle_def union_handle_def
        literal_handle_def quoted_def nullish_def)

lemma sample_js_numbers:
  "number_toString sample_js 1 = ''1''" "number_toString sample_js 2 = ''2''"
  "number_toString sample_js 3 = ''3''"
  by (simp_all add: sample_js_def)

lemma sample_js_letters:
  "toLowerCase sample_js ''T'' = ''t''" "toLowerCase sample_js ''U'' = ''u''"
  by (simp_all add: sample_js_def)

lemma resolve_literal_member:
  "literal_member m v \<Longrightarrow> parserPropertyType m = Inr (Literal_kind v)"
  by (subst parserPropertyType.simps) (simp add: literal_member_def)

lemma resolve_literal_members:
  "list_all2 literal_member ms vs \<Longrightarrow>
   map parserPropertyType ms = map Inr (map Literal_kind vs)"
  by (induction rule: list_all2_induct) (simp_all add: resolve_literal_member)

lemma resolve_literal_union:
  assumes "literal_union u vs"
  shows "parserPropertyType u = Inr (Union_kind (map Literal_kind vs))"
proof -
  from assms have "list_all2 literal_member (getUnionTypes u) vs"
    by (simp add: literal_union_def)
  then have "map_throwing parserPropertyType (getUnionTypes u) = Inr (map Literal_kind vs)"
    by (rule map_throwing_Inr_iff [THEN iffD2, OF resolve_literal_members])
  with assms show ?thesis
    by (simp add: literal_union_def resolve_union_step)
qed

lemma generate_literal_union:
  "generateType js (Union_kind (map Literal_kind vs)) =
     ''t.Union(['' @ join (map (generateLiteralType js) vs) '', '' @ ''])''"
  by (simp add: comp_def)

section \<open>Properties of the specification\<close>

text \<open>
  C1, as stated, fails: the resolver keeps the order in which the provider reports the
  members of a union, and that is not always the order of the declaration. On the
  \<^verbatim>\<open>Task\<close> fixture with the aliased \<^verbatim>\<open>status\<close>, where \<^verbatim>\<open>priority\<close> is declared as
  \<^verbatim>\<open>1 | 2 | 3\<close> and reported as 3, 1, 2, the generated union lists 3, 1, 2.
\<close>

theorem Task_alias_order_counterexample:
  "map_sum id (map Property.type \<circ> properties)
     (parseClass Task_alias_project ''tests/fixtures/union-types.ts'' ''Task'') =
     Inr [Primitive_kind String_type,
          Union_kind [Literal_kind (StringValue ''pending''), Literal_kind (StringValue ''active''),
                      Literal_kind (StringValue ''completed'')],
          Union_kind [Literal_kind (NumberValue 3), Literal_kind (NumberValue 1),
                      Literal_kind (NumberValue 2)]] \<and>
   map_sum id (generate sample_js)
     (parseClass Task_alias_project ''tests/fixtures/union-types.ts'' ''Task'') =
     Inr (''import { t } from '' @ [CHR 0x22] @ ''elysia'' @ [CHR 0x22] @
          ''\<newline>\<newline>export const taskSchema = t.Object({ \<newline>'' @
          ''  id: t.String(),\<newline>'' @
          ''  status: t.Union([t.Literal('pending'), t.Literal('active'), t.Literal('completed')]),\<newline>'' @
          ''  priority: t.Union([t.Literal(3), t.Literal(1), t.Literal(2)]) });'')"
  by (simp add: parseClass_def Task_alias_project_def getClass_def Task_alias_class_def
        parseProperties_def parseProperty_def parserPropertyType.simps string_handle_def
        union_handle_def literal_handle_def quoted_def nullish_def
        generate_def getImports_def generateSchemaName_def generateProperties_def
        charAt_def slice_def sample_js_numbers sample_js_letters)

text \<open>
  C1, amended. Take a class \<^verbatim>\<open>Task\<close> with the properties \<^verbatim>\<open>id\<close>, \<^verbatim>\<open>status\<close> and \<^verbatim>\<open>priority\<close>,
  none of them optional, where \<^verbatim>\<open>id\<close> is a string and the types of \<^verbatim>\<open>status\<close> and
  \<^verbatim>\<open>priority\<close> are unions whose members the provider reports as literal types with the
  values \<open>vs\<close> and \<open>ws\<close>. Parsing the class succeeds, the two properties resolve to the
  unions of the literal nodes \<open>vs\<close> and \<open>ws\<close>, and the TypeBox code generated from the
  result has two \<^verbatim>\<open>t.Union\<close> calls that hold exactly one \<^verbatim>\<open>t.Literal\<close> per reported member,
  with its value, in the order of the report. When the provider reports pending, active,
  completed and 1, 2, 3, these are exactly three literals each, in that order.
\<close>

theorem Task_round_trip:
  assumes "project file_path = Some sourceFile"
    and "getClass sourceFile ''Task'' = Some classDeclaration"
    and "class_getProperties classDeclaration = [p_id, p_status, p_priority]"
    and "property_getName p_id = ''id''" "property_hasQuestionToken p_id = Some False"
    and "property_getName p_status = ''status''"
        "property_hasQuestionToken p_status = Some False"
    and "property_getName p_priority = ''priority''"
        "property_hasQuestionToken p_priority = Some False"
    and "isString (property_getType p_id)"
    and "literal_union (property_getType p_status) vs"
    and "literal_union (property_getType p_priority) ws"
    and "toLowerCase js ''T'' = ''t''"
  shows "\<exists>parsed.
     parseClass project file_path ''Task'' = Inr parsed \<and>
     map Property.type (properties parsed) =
       [Primitive_kind String_type, Union_kind (map Literal_kind vs),
        Union_kind (map Literal_kind ws)] \<and>
     generate js parsed =
       ''import { t } from '' @ [CHR 0x22] @ ''elysia'' @ [CHR 0x22] @
       ''\<newline>\<newline>export const taskSchema = t.Object({ \<newline>'' @
       ''  id: t.String(),\<newline>'' @
       ''  status: t.Union(['' @ join (map (generateLiteralType js) vs) '', '' @ '']),\<newline>'' @
       ''  priority: t.Union(['' @ join (map (generateLiteralType js) ws) '', '' @ '']) });''"
proof -
  have id: "parserPropertyType (property_getType p_id) = Inr (Primitive_kind String_type)"
    using assms(10) by (subst parserPropertyType.simps) simp
  note st = resolve_literal_union [OF assms(11)]
  note pr = resolve_literal_union [OF assms(12)]
  have parsed: "parseClass project file_path ''Task'' =
      Inr \<lparr>name = ''Task'', filePath = file_path,
           isExported = class_isExported classDeclaration,
           properties =
             [Property ''id'' (Primitive_kind String_type) False
                (property_isReadonly p_id) (property_hasInitializer p_id),
              Property ''status'' (Union_kind (map Literal_kind vs)) False
                (property_isReadonly p_status) (property_hasInitializer p_status),
              Property ''priority'' (Union_kind (map Literal_kind ws)) False
                (property_isReadonly p_priority) (property_hasInitializer p_priority)]\<rparr>"
    using assms(1-9) id st pr
    by (simp add: parseClass_def parseProperties_def parseProperty_def nullish_def)
  have name: "generateSchemaName js ''Task'' = ''taskSchema''"
    using assms(13) by (simp add: generateSchemaName_def charAt_def slice_def)
  have status: "generateProperty js (Property ''status'' (Union_kind (map Literal_kind vs)) False
                  (property_isReadonly p_status) (property_hasInitializer p_status)) =
                ''  status: t.Union(['' @ join (map (generateLiteralType js) vs) '', '' @ ''])''"
    by (simp add: comp_def)
  have priority: "generateProperty js (Property ''priority'' (Union_kind (map Literal_kind ws)) False
                  (property_isReadonly p_priority) (property_hasInitializer p_priority)) =
                ''  priority: t.Union(['' @ join (map (generateLiteralType js) ws) '', '' @ ''])''"
    by (simp add: comp_def)
  have ident: "generateProperty js (Property ''id'' (Primitive_kind String_type) False
                  (property_isReadonly p_id) (property_hasInitializer p_id)) =
                ''  id: t.String()''"
    by simp
  show ?thesis
    unfolding parsed
    by (simp add: generate_def getImports_def generateProperties_def name status priority ident
          del: generateType.simps generateProperty.simps generateUnionType.simps)
qed

theorem Task_round_trip_witness:
  "literal_union (property_getType (class_getProperties Task_class ! 1))
     [StringValue ''pending'', StringValue ''active'', StringValue ''completed''] \<and>
   literal_union (property_getType (class_getProperties Task_class ! 2))
     [NumberValue 1, NumberValue 2, NumberValue 3] \<and>
   toLowerCase sample_js ''T'' = ''t'' \<and>
   (\<exists>parsed.
     parseClass Task_project ''tests/fixtures/union-types.ts'' ''Task'' = Inr parsed \<and>
     map Property.type (properties parsed) =
       [Primitive_kind String_type,
        Union_kind [Literal_kind (StringValue ''pending''), Literal_kind (StringValue ''active''),
                    Literal_kind (StringValue ''completed'')],
        Union_kind [Literal_kind (NumberValue 1), Literal_kind (NumberValue 2),
                    Literal_kind (NumberValue 3)]] \<and>
     generate sample_js parsed =
       ''import { t } from '' @ [CHR 0x22] @ ''elysia'' @ [CHR 0x22] @
       ''\<newline>\<newline>export const taskSchema = t.Object({ \<newline>'' @
       ''  id: t.String(),\<newline>'' @
       ''  status: t.Union([t.Literal('pending'), t.Literal('active'), t.Literal('completed')]),\<newline>'' @
       ''  priority: t.Union([t.Literal(1), t.Literal(2), t.Literal(3)]) });'')"
proof -
  have f: "Task_project ''tests/fixtures/union-types.ts'' = Some [Task_class]"
    by (simp add: Task_project_def)
  have c: "getClass [Task_class] ''Task'' = Some Task_class"
    by (simp add: getClass_def Task_class_def)
  have ps: "class_getProperties Task_class =
              [class_getProperties Task_class ! 0, class_getProperties Task_class ! 1,
               class_getProperties Task_class ! 2]"
    by (simp add: Task_class_def)
  have st: "literal_union (property_getType (class_getProperties Task_class ! 1))
     [StringValue ''pending'', StringValue ''active'', StringValue ''completed'']"
    by (simp add: Task_class_def literal_union_def literal_member_def union_handle_def
          literal_handle_def quoted_def)
  have pr: "literal_union (property_getType (class_getProperties Task_class ! 2))
     [NumberValue 1, NumberValue 2, NumberValue 3]"
    by (simp add: Task_class_def literal_union_def literal_member_def union_handle_def
          literal_handle_def)
  have lo: "toLowerCase sample_js ''T'' = ''t''"
    by (rule sample_js_letters)
  from Task_round_trip
         [where project = Task_project and file_path = "''tests/fixtures/union-types.ts''"
            and js = sample_js, OF f c ps _ _ _ _ _ _ _ st pr lo]
  have "\<exists>parsed.
     parseClass Task_project ''tests/fixtures/union-types.ts'' ''Task'' = Inr parsed \<and>
     map Property.type (properties parsed) =
       [Primitive_kind String_type,
        Union_kind (map Literal_kind
          [StringValue ''pending'', StringValue ''active'', StringValue ''completed'']),
        Union_kind (map Literal_kind [NumberValue 1, NumberValue 2, NumberValue 3])] \<and>
     generate sample_js parsed =
       ''import { t } from '' @ [CHR 0x22] @ ''elysia'' @ [CHR 0x22] @
       ''\<newline>\<newline>export const taskSchema = t.Object({ \<newline>'' @
       ''  id: t.String(),\<newline>'' @
       ''  status: t.Union(['' @
          join (map (generateLiteralType sample_js)
                  [StringValue ''pending'', StringValue ''active'', StringValue ''completed''])
               '', '' @ '']),\<newline>'' @
       ''  priority: t.Union(['' @
          join (map (generateLiteralType sample_js)
                  [NumberValue 1, NumberValue 2, NumberValue 3]) '', '' @ '']) });''"
    by (simp add: Task_class_def string_handle_def)
  then have "\<exists>parsed.
     parseClass Task_project ''tests/fixtures/union-types.ts'' ''Task'' = Inr parsed \<and>
     map Property.type (properties parsed) =
       [Primitive_kind String_type,
        Union_kind [Literal_kind (StringValue ''pending''), Literal_kind (StringValue ''active''),
                    Literal_kind (StringValue ''completed'')],
        Union_kind [Literal_kind (NumberValue 1), Literal_kind (NumberValue 2),
                    Literal_kind (NumberValue 3)]] \<and>
     generate sample_js parsed =
       ''import { t } from '' @ [CHR 0x22] @ ''elysia'' @ [CHR 0x22] @
       ''\<newline>\<newline>export const taskSchema = t.Object({ \<newline>'' @
       ''  id: t.String(),\<newline>'' @
       ''  status: t.Union([t.Literal('pending'), t.Literal('active'), t.Literal('completed')]),\<newline>'' @
       ''  priority: t.Union([t.Literal(1), t.Literal(2), t.Literal(3)]) });''"
    by (simp add: sample_js_numbers)
  with st pr lo show ?thesis by blast
qed

text \<open>
  C2, as stated, fails: a handle that is a union kind and reports no member types
  resolves to a union node with an empty list of members. Nothing in
  \<^verbatim>\<open>parserPropertyType\<close> counts the members.
\<close>

theorem empty_union_is_returned_counterexample:
  "isUnion (union_handle ''never'' []) \<and> getUnionTypes (union_handle ''never'' []) = [] \<and>
   parserPropertyType (union_handle ''never'' []) = Inr (Union_kind [])"
  by (simp add: parserPropertyType.simps union_handle_def)

text \<open>
  C2, amended. A handle that reaches the union test (no earlier test matches) and is a
  union kind, whose members resolve to the nodes \<open>xs\<close> in the reported order, resolves
  to the union of \<open>xs\<close> in that order, for any number of members; with no members at
  all the result is the union of the empty list.
\<close>

theorem union_members_in_order:
  assumes "\<not> isString t" "\<not> isNumber t" "\<not> isBoolean t" "getText t \<noteq> ''Date''"
    and "\<not> isArray t" "isUnion t"
    and "map parserPropertyType (getUnionTypes t) = map Inr xs"
  shows "parserPropertyType t = Inr (Union_kind xs)"
  using assms by (simp add: resolve_union_step map_throwing_Inr_iff [THEN iffD2])

theorem union_members_in_order_witness:
  "isUnion (union_handle ''never'' []) \<and>
   map parserPropertyType (getUnionTypes (union_handle ''never'' [])) = map Inr [] \<and>
   parserPropertyType (union_handle ''never'' []) = Inr (Union_kind [])"
  using union_members_in_order [of "union_handle ''never'' []" "[]"]
  by (simp add: union_handle_def)

text \<open>
  C3. A handle that reaches the literal test (no earlier test matches), is a literal
  kind with a value that is no string, number or boolean, and is not an object kind,
  does not resolve to a literal node: resolution reaches the \<^verbatim>\<open>throw\<close> of line 138 and
  fails with \<^verbatim>\<open>Unsupported type:\<close> followed by the text of the type. TypeScript has no
  type that is a literal and an object at once, so the hypothesis on the object kind
  holds for every literal handle; the handles of \<^verbatim>\<open>10n\<close> and of \<^verbatim>\<open>true\<close> are two of them.
\<close>

theorem unrepresentable_literal_is_unsupported:
  assumes "\<not> isString t" "\<not> isNumber t" "\<not> isBoolean t" "getText t \<noteq> ''Date''"
    and "\<not> isArray t" "\<not> isUnion t"
    and "isLiteral t" "string_number_boolean (getLiteralValue t) = None"
    and "\<not> isObject t"
  shows "parserPropertyType t = Inl (Error (''Unsupported type: '' @ getText t)) \<and>
         (\<forall>v. parserPropertyType t \<noteq> Inr (Literal_kind v))"
  using assms by (simp add: terminal_failure)

theorem unrepresentable_literal_is_unsupported_witness:
  "isLiteral (literal_handle ''10n'' (JsBigInt 10)) \<and>
   string_number_boolean (getLiteralValue (literal_handle ''10n'' (JsBigInt 10))) = None \<and>
   \<not> isObject (literal_handle ''10n'' (JsBigInt 10)) \<and>
   parserPropertyType (literal_handle ''10n'' (JsBigInt 10)) =
     Inl (Error ''Unsupported type: 10n'') \<and>
   isLiteral (literal_handle ''true'' JsUndefined) \<and>
   string_number_boolean (getLiteralValue (literal_handle ''true'' JsUndefined)) = None \<and>
   \<not> isObject (literal_handle ''true'' JsUndefined) \<and>
   parserPropertyType (literal_handle ''true'' JsUndefined) =
     Inl (Error ''Unsupported type: true'')"
  using unrepresentable_literal_is_unsupported [of "literal_handle ''10n'' (JsBigInt 10)"]
        unrepresentable_literal_is_unsupported [of "literal_handle ''true'' JsUndefined"]
  by (simp add: literal_handle_def)

text \<open>
  C4, as stated, fails: the error names the type at which resolution stopped, which is
  not always the type of the property. The property \<^verbatim>\<open>amounts: bigint[]\<close> of \<^verbatim>\<open>Ledger\<close>
  has the text \<^verbatim>\<open>bigint[]\<close>, its resolution fails with an unsupported type, and the error
  of \<^verbatim>\<open>parseClass\<close> names the element type \<^verbatim>\<open>bigint\<close>.
\<close>

theorem nested_unsupported_type_counterexample:
  "getClass [Ledger_class, Account_class] ''Ledger'' = Some Ledger_class \<and>
   getText (property_getType (class_getProperties Ledger_class ! 1)) = ''bigint[]'' \<and>
   parserPropertyType (property_getType (class_getProperties Ledger_class ! 1)) =
     Inl (Error ''Unsupported type: bigint'') \<and>
   parseClass ledger_project ''src/ledger.ts'' ''Ledger'' = Inl (Error ''Unsupported type: bigint'')"
  by (simp add: parseClass_def ledger_project_def getClass_def Ledger_class_def
        Account_class_def parseProperties_def parseProperty_def parserPropertyType.simps
        string_handle_def array_handle_def plain_handle_def)

text \<open>
  C4, amended. When the class is found and the type of one of its properties fails to
  resolve, \<^verbatim>\<open>parseClass\<close> fails and returns no \<^verbatim>\<open>ParsedClass\<close>. The error is the one raised
  while resolving the first property, in the order of declaration, whose type fails to
  resolve; when the type of that property itself matches no kind, the error is
  \<^verbatim>\<open>Unsupported type:\<close> followed by the text of the property's type.
\<close>

theorem parseClass_fails_with_first_error:
  assumes "project file_path = Some sourceFile"
    and "getClass sourceFile className = Some classDeclaration"
    and "p \<in> set (class_getProperties classDeclaration)"
    and "parserPropertyType (property_getType p) = Inl e"
  shows "(\<exists>e'. parseClass project file_path className = Inl e') \<and>
         (\<forall>before after.
            class_getProperties classDeclaration = before @ p # after \<and>
            (\<forall>q\<in>set before. \<exists>ty. parserPropertyType (property_getType q) = Inr ty) \<longrightarrow>
            parseClass project file_path className = Inl e \<and>
            (matches_no_kind (property_getType p) \<longrightarrow>
               e = Error (''Unsupported type: '' @ getText (property_getType p))))"
proof (intro conjI allI impI)
  from assms(3,4) have "\<exists>e'. parseProperties classDeclaration = Inl e'"
    unfolding parseProperties_def
    by (intro map_throwing_some_error [where z = p and e = e]) (simp_all add: parseProperty_Inl)
  with assms(1,2) show "\<exists>e'. parseClass project file_path className = Inl e'"
    by (auto simp: parseClass_def)
next
  fix before after
  assume a: "class_getProperties classDeclaration = before @ p # after \<and>
            (\<forall>q\<in>set before. \<exists>ty. parserPropertyType (property_getType q) = Inr ty)"
  then have "\<forall>q\<in>set before. \<exists>y. parseProperty q = Inr y"
    by (auto dest: parseProperty_Inr)
  with a assms(4) have "parseProperties classDeclaration = Inl e"
    unfolding parseProperties_def
    by (simp add: map_throwing_first_error parseProperty_Inl)
  with assms(1,2) show "parseClass project file_path className = Inl e"
    by (simp add: parseClass_def)
next
  fix before after
  assume "matches_no_kind (property_getType p)"
  then have "parserPropertyType (property_getType p) =
               Inl (Error (''Unsupported type: '' @ getText (property_getType p)))"
    by (intro terminal_failure) (auto simp: matches_no_kind_def)
  with assms(4) show "e = Error (''Unsupported type: '' @ getText (property_getType p))"
    by simp
qed

theorem parseClass_fails_with_first_error_witness:
  "ledger_project ''src/ledger.ts'' = Some [Ledger_class, Account_class] \<and>
   getClass [Ledger_class, Account_class] ''Account'' = Some Account_class \<and>
   class_getProperties Account_class =
     [class_getProperties Account_class ! 0] @ class_getProperties Account_class ! 1 # [] \<and>
   parserPropertyType (property_getType (class_getProperties Account_class ! 0)) =
     Inr (Primitive_kind String_type) \<and>
   matches_no_kind (property_getType (class_getProperties Account_class ! 1)) \<and>
   getText (property_getType (class_getProperties Account_class ! 1)) = ''bigint'' \<and>
   parseClass ledger_project ''src/ledger.ts'' ''Account'' =
     Inl (Error ''Unsupported type: bigint'')"
proof -
  have f: "ledger_project ''src/ledger.ts'' = Some [Ledger_class, Account_class]"
    by (simp add: ledger_project_def)
  have c: "getClass [Ledger_class, Account_class] ''Account'' = Some Account_class"
    by (simp add: getClass_def Ledger_class_def Account_class_def)
  have m: "class_getProperties Account_class ! 1 \<in> set (class_getProperties Account_class)"
    by (simp add: Account_class_def)
  have s: "class_getProperties Account_class =
     [class_getProperties Account_class ! 0] @ class_getProperties Account_class ! 1 # []"
    by (simp add: Account_class_def)
  have o: "parserPropertyType (property_getType (class_getProperties Account_class ! 0)) =
     Inr (Primitive_kind String_type)"
    by (simp add: Account_class_def resolve_string_handle)
  have n: "matches_no_kind (property_getType (class_getProperties Account_class ! 1))"
    by (simp add: Account_class_def matches_no_kind_def plain_handle_def)
  have t: "getText (property_getType (class_getProperties Account_class ! 1)) = ''bigint''"
    by (simp add: Account_class_def plain_handle_def)
  have e: "parserPropertyType (property_getType (class_getProperties Account_class ! 1)) =
             Inl (Error ''Unsupported type: bigint'')"
    by (simp add: Account_class_def plain_handle_def parserPropertyType.simps)
  from parseClass_fails_with_first_error
         [where project = ledger_project and file_path = "''src/ledger.ts''", OF f c m e]
  have "class_getProperties Account_class =
          [class_getProperties Account_class ! 0] @ class_getProperties Account_class ! 1 # [] \<and>
        (\<forall>q\<in>set [class_getProperties Account_class ! 0].
            \<exists>ty. parserPropertyType (property_getType q) = Inr ty) \<longrightarrow>
        parseClass ledger_project ''src/ledger.ts'' ''Account'' =
          Inl (Error ''Unsupported type: bigint'')"
    by blast
  with s o have "parseClass ledger_project ''src/ledger.ts'' ''Account'' =
                   Inl (Error ''Unsupported type: bigint'')"
    by simp
  with f c s o n t show ?thesis by blast
qed

text \<open>
  C5. A type handle that is not a string, number or boolean primitive and whose text is
  exactly \<^verbatim>\<open>Date\<close> resolves to the primitive \<^verbatim>\<open>Date\<close>. The test on the text comes before
  the array, union, literal and object tests, so no such handle is resolved as an
  object, whatever it answers to the other queries.
\<close>

theorem date_text_resolves_to_date:
  assumes "\<not> isString t" "\<not> isNumber t" "\<not> isBoolean t" "getText t = ''Date''"
  shows "parserPropertyType t = Inr (Primitive_kind Date_type) \<and>
         (\<forall>props. parserPropertyType t \<noteq> Inr (Object_kind props))"
  using assms by (subst parserPropertyType.simps, subst parserPropertyType.simps) simp

theorem date_text_resolves_to_date_witness:
  "\<not> isString Date_handle \<and> \<not> isNumber Date_handle \<and> \<not> isBoolean Date_handle \<and>
   getText Date_handle = ''Date'' \<and> isObject Date_handle \<and>
   parserPropertyType Date_handle = Inr (Primitive_kind Date_type) \<and>
   (\<forall>props. parserPropertyType Date_handle \<noteq> Inr (Object_kind props))"
  using date_text_resolves_to_date [of Date_handle]
  by (simp add: Date_handle_def object_handle_def)

text \<open>
  C6. Array resolution follows the structure of the type. When the element handle \<open>e\<close>
  resolves to the node \<open>X\<close>, every handle \<open>t\<close> that reaches the array test (it is no
  string, number or boolean primitive and its text is not \<^verbatim>\<open>Date\<close>), is an array kind and
  has the element \<open>e\<close> resolves to the array of \<open>X\<close>; and the array type nested \<open>n\<close> deep
  over \<open>e\<close> resolves to \<open>n\<close> array nodes around \<open>X\<close>, for every \<open>n\<close>. So \<^verbatim>\<open>string[][]\<close>
  resolves to array(array(primitive string)).
\<close>

theorem array_resolution_is_recursive:
  assumes "parserPropertyType e = Inr X"
  shows "(\<not> isString t \<and> \<not> isNumber t \<and> \<not> isBoolean t \<and> getText t \<noteq> ''Date'' \<and>
          isArray t \<and> getArrayElementType t = Some e \<longrightarrow>
          parserPropertyType t = Inr (Array_kind X)) \<and>
         parserPropertyType ((array_handle ^^ n) e) = Inr ((Array_kind ^^ n) X)"
  using assms by (simp add: resolve_array_step resolve_nested_array_handle)

theorem array_resolution_is_recursive_witness:
  "parserPropertyType string_handle = Inr (Primitive_kind String_type) \<and>
   \<not> isString (array_handle string_handle) \<and> \<not> isNumber (array_handle string_handle) \<and>
   \<not> isBoolean (array_handle string_handle) \<and>
   getText (array_handle string_handle) = ''string[]'' \<and>
   isArray (array_handle string_handle) \<and>
   getArrayElementType (array_handle string_handle) = Some string_handle \<and>
   parserPropertyType (array_handle string_handle) =
     Inr (Array_kind (Primitive_kind String_type)) \<and>
   parserPropertyType (array_handle (array_handle string_handle)) =
     Inr (Array_kind (Array_kind (Primitive_kind String_type)))"
proof -
  have flags:
    "\<not> isString (array_handle string_handle) \<and> \<not> isNumber (array_handle string_handle) \<and>
     \<not> isBoolean (array_handle string_handle) \<and>
     getText (array_handle string_handle) = ''string[]'' \<and>
     isArray (array_handle string_handle) \<and>
     getArrayElementType (array_handle string_handle) = Some string_handle"
    by (simp add: array_handle_def string_handle_def)
  from array_resolution_is_recursive
         [OF resolve_string_handle, of "array_handle string_handle" 2]
  have "parserPropertyType (array_handle string_handle) =
          Inr (Array_kind (Primitive_kind String_type)) \<and>
        parserPropertyType (array_handle (array_handle string_handle)) =
          Inr (Array_kind (Array_kind (Primitive_kind String_type)))"
    using flags by (simp add: numeral_2_eq_2)
  with flags resolve_string_handle show ?thesis by simp
qed

text \<open>
  C7. When a handle resolves to an object node, the node has one property per member
  symbol, in the same order, and each property has \<^verbatim>\<open>isReadonly = false\<close> and
  \<^verbatim>\<open>hasDefaultValue = false\<close>, whatever the member's declaration says about
  \<^verbatim>\<open>readonly\<close> or an initializer. Its name is the symbol's name, its \<^verbatim>\<open>isOptional\<close> is the
  symbol's optional flag (false when absent), and its type is the resolution of the
  type of the symbol's first declaration.
\<close>

theorem object_members_never_readonly_or_default:
  assumes "parserPropertyType t = Inr (Object_kind props)"
  shows "length props = length (getProperties t) \<and>
         (\<forall>i < length props.
            \<not> isReadonly (props ! i) \<and> \<not> hasDefaultValue (props ! i) \<and>
            Property.name (props ! i) = symbol_getName (getProperties t ! i) \<and>
            isOptional (props ! i) = nullish (symbol_isOptional (getProperties t ! i)) False \<and>
            (\<exists>d ds ty. symbol_getDeclarations (getProperties t ! i) = d # ds \<and>
                       node_getType d = Some ty \<and>
                       parserPropertyType ty = Inr (Property.type (props ! i))))"
proof -
  note m = resolved_object_members [OF assms]
  have len: "length props = length (getProperties t)"
    by (rule map_throwing_nth(1) [OF m])
  have "\<not> isReadonly (props ! i) \<and> \<not> hasDefaultValue (props ! i) \<and>
            Property.name (props ! i) = symbol_getName (getProperties t ! i) \<and>
            isOptional (props ! i) = nullish (symbol_isOptional (getProperties t ! i)) False \<and>
            (\<exists>d ds ty. symbol_getDeclarations (getProperties t ! i) = d # ds \<and>
                       node_getType d = Some ty \<and>
                       parserPropertyType ty = Inr (Property.type (props ! i)))"
    if i: "i < length props" for i
  proof -
    define s where "s = getProperties t ! i"
    from i len have "i < length (getProperties t)" by simp
    from map_throwing_nth(2) [OF m this]
    have r: "(case symbol_getDeclarations s of
              [] \<Rightarrow> Inl (Error (''No declaration found for property '' @ symbol_getName s))
            | declaration # _ \<Rightarrow>
                (case node_getType declaration of
                   None \<Rightarrow> Inl (Error (''Cannot get type for property '' @ symbol_getName s))
                 | Some propertyType \<Rightarrow>
                     (case parserPropertyType propertyType of
                        Inl e \<Rightarrow> Inl e
                      | Inr ty \<Rightarrow>
                          Inr (Property (symbol_getName s) ty
                                 (nullish (symbol_isOptional s) False) False False)))) =
             Inr (props ! i)"
      unfolding s_def .
    then obtain d ds where d: "symbol_getDeclarations s = d # ds"
      by (cases "symbol_getDeclarations s") auto
    with r obtain ty where ty: "node_getType d = Some ty"
      by (cases "node_getType d") auto
    with r d obtain x where x: "parserPropertyType ty = Inr x"
      by (cases "parserPropertyType ty") auto
    with r d ty have "props ! i =
        Property (symbol_getName s) x (nullish (symbol_isOptional s) False) False False"
      by simp
    with d ty x show ?thesis unfolding s_def by simp
  qed
  with len show ?thesis by blast
qed

theorem object_members_never_readonly_or_default_witness:
  "parserPropertyType address_handle =
     Inr (Object_kind
            [Property ''street'' (Primitive_kind String_type) False False False,
             Property ''city'' (Primitive_kind String_type) True False False]) \<and>
   node_isReadonly (hd (symbol_getDeclarations (getProperties address_handle ! 0))) \<and>
   \<not> isReadonly
       ([Property ''street'' (Primitive_kind String_type) False False False,
         Property ''city'' (Primitive_kind String_type) True False False] ! 0) \<and>
   \<not> hasDefaultValue
       ([Property ''street'' (Primitive_kind String_type) False False False,
         Property ''city'' (Primitive_kind String_type) True False False] ! 0) \<and>
   Property.name
       ([Property ''street'' (Primitive_kind String_type) False False False,
         Property ''city'' (Primitive_kind String_type) True False False] ! 0) =
     symbol_getName (getProperties address_handle ! 0)"
proof -
  have r: "parserPropertyType address_handle =
     Inr (Object_kind
            [Property ''street'' (Primitive_kind String_type) False False False,
             Property ''city'' (Primitive_kind String_type) True False False])"
    by (subst parserPropertyType.simps)
       (simp add: address_handle_def object_handle_def resolve_string_handle nullish_def)
  have ro: "node_isReadonly (hd (symbol_getDeclarations (getProperties address_handle ! 0)))"
    by (simp add: address_handle_def object_handle_def)
  from object_members_never_readonly_or_default [OF r]
  have "\<forall>i < 2.
          \<not> isReadonly
              ([Property ''street'' (Primitive_kind String_type) False False False,
                Property ''city'' (Primitive_kind String_type) True False False] ! i) \<and>
          \<not> hasDefaultValue
              ([Property ''street'' (Primitive_kind String_type) False False False,
                Property ''city'' (Primitive_kind String_type) True False False] ! i) \<and>
          Property.name
              ([Property ''street'' (Primitive_kind String_type) False False False,
                Property ''city'' (Primitive_kind String_type) True False False] ! i) =
            symbol_getName (getProperties address_handle ! i)"
    by simp
  then have "\<not> isReadonly
              ([Property ''street'' (Primitive_kind String_type) False False False,
                Property ''city'' (Primitive_kind String_type) True False False] ! 0) \<and>
          \<not> hasDefaultValue
              ([Property ''street'' (Primitive_kind String_type) False False False,
                Property ''city'' (Primitive_kind String_type) True False False] ! 0) \<and>
          Property.name
              ([Property ''street'' (Primitive_kind String_type) False False False,
                Property ''city'' (Primitive_kind String_type) True False False] ! 0) =
            symbol_getName (getProperties address_handle ! 0)"
    by (rule allE [where x = 0]) simp
  with r ro show ?thesis by blast
qed

text \<open>
  C8. The name of the generated declaration is the class name with its first character
  put through \<^verbatim>\<open>toLowerCase\<close>, followed by \<^verbatim>\<open>Schema\<close>, for every class name and whatever
  \<^verbatim>\<open>toLowerCase\<close> does on that character; as it turns \<^verbatim>\<open>U\<close> into \<^verbatim>\<open>u\<close>, \<^verbatim>\<open>UserProfile\<close> gives
  \<^verbatim>\<open>userProfileSchema\<close>. The generated text is the import statement, an empty line, and
  the exported declaration of that name.
\<close>

theorem schema_name_and_layout:
  "generateSchemaName js className =
     toLowerCase js (take 1 className) @ drop 1 className @ ''Schema'' \<and>
   (toLowerCase js ''U'' = ''u'' \<longrightarrow>
      generateSchemaName js ''UserProfile'' = ''userProfileSchema'') \<and>
   generate js parsedClass =
     ''import { t } from '' @ [CHR 0x22] @ ''elysia'' @ [CHR 0x22] @ ''\<newline>\<newline>'' @
     ''export const '' @ generateSchemaName js (ParsedClass.name parsedClass) @
     '' = t.Object({ \<newline>'' @ generateProperties js (properties parsedClass) @ '' });''"
proof (intro conjI)
  show "generateSchemaName js className =
          toLowerCase js (take 1 className) @ drop 1 className @ ''Schema''"
    by (cases className) (simp_all add: generateSchemaName_def charAt_def slice_def)
  show "toLowerCase js ''U'' = ''u'' \<longrightarrow>
          generateSchemaName js ''UserProfile'' = ''userProfileSchema''"
    by (simp add: generateSchemaName_def charAt_def slice_def)
  show "generate js parsedClass =
     ''import { t } from '' @ [CHR 0x22] @ ''elysia'' @ [CHR 0x22] @ ''\<newline>\<newline>'' @
     ''export const '' @ generateSchemaName js (ParsedClass.name parsedClass) @
     '' = t.Object({ \<newline>'' @ generateProperties js (properties parsedClass) @ '' });''"
    by (simp add: generate_def getImports_def)
qed

theorem schema_name_and_layout_witness:
  "toLowerCase sample_js ''U'' = ''u'' \<and>
   generateSchemaName sample_js ''UserProfile'' = ''userProfileSchema''"
proof -
  have lo: "toLowerCase sample_js ''U'' = ''u''"
    by (rule sample_js_letters)
  with schema_name_and_layout [of sample_js] show ?thesis by blast
qed

text \<open>
  C9. A literal node with the string value \<open>v\<close> is rendered as \<^verbatim>\<open>t.Literal('\<close>, then \<open>v\<close>
  code unit for code unit, then \<^verbatim>\<open>')\<close>: a quote or a backslash in \<open>v\<close> is not escaped. A
  number is rendered between the parentheses as the default conversion of the language
  prints it, whatever that conversion prints, and a boolean as \<^verbatim>\<open>true\<close> or \<^verbatim>\<open>false\<close>, both
  without quotes.
\<close>

theorem literal_rendering:
  "generateLiteralType js (StringValue v) =
     ''t.Literal('' @ [CHR 0x27] @ v @ [CHR 0x27] @ '')'' \<and>
   generateType js (Literal_kind (StringValue v)) =
     ''t.Literal('' @ [CHR 0x27] @ v @ [CHR 0x27] @ '')'' \<and>
   generateLiteralType js (StringValue (''it'' @ [CHR 0x27] @ ''s'' @ [CHR 0x5C])) =
     ''t.Literal('' @ [CHR 0x27] @ ''it'' @ [CHR 0x27] @ ''s'' @ [CHR 0x5C] @ [CHR 0x27] @ '')'' \<and>
   generateLiteralType js (NumberValue n) = ''t.Literal('' @ number_toString js n @ '')'' \<and>
   generateType js (Literal_kind (NumberValue n)) =
     ''t.Literal('' @ number_toString js n @ '')'' \<and>
   generateLiteralType js (BooleanValue True) = ''t.Literal(true)'' \<and>
   generateLiteralType js (BooleanValue False) = ''t.Literal(false)''"
  by (simp add: boolean_toString_def)

text \<open>
  C10. When \<^verbatim>\<open>parseClass\<close> succeeds, the name and the file path of the result are its two
  arguments.
\<close>

theorem parseClass_copies_arguments:
  assumes "parseClass project file_path className = Inr parsed"
  shows "ParsedClass.name parsed = className \<and> filePath parsed = file_path"
  using assms by (auto simp: parseClass_def split: option.splits sum.splits)

theorem parseClass_copies_arguments_witness:
  "\<exists>parsed. parseClass Task_project ''tests/fixtures/union-types.ts'' ''Task'' = Inr parsed \<and>
      ParsedClass.name parsed = ''Task'' \<and> filePath parsed = ''tests/fixtures/union-types.ts''"
  using parseClass_copies_arguments [OF Task_parsed] Task_parsed by simp

end
